theory Spec2Isabelle
  imports Main "HOL-Library.Word" "HOL-Library.Sublist"
begin

section \<open>Data model\<close>

text \<open>
  A \<open>uuid.UUID\<close> is sixteen bytes; it is read here as one 128-bit word, \<open>uuid.Nil\<close>
  being 0. A \<open>time.Time\<close> is a point on an integer time line (seconds), the zero
  \<open>time.Time\<close> being 0. A Go \<open>*string\<close> is a \<open>string option\<close>, \<open>nil\<close> being \<open>None\<close>.
\<close>

type_synonym uuid = "128 word"
type_synonym time = int

text \<open>\<open>internal/enum/task_enum.go\<close>: \<open>TaskStatus\<close> is a string type.\<close>

type_synonym TaskStatus = string

definition StatusToDo :: TaskStatus where
  "StatusToDo = ''TO_DO''"

definition StatusInProgress :: TaskStatus where
  "StatusInProgress = ''IN_PROGRESS''"

definition StatusDone :: TaskStatus where
  "StatusDone = ''DONE''"

definition IsValid :: "TaskStatus \<Rightarrow> bool" where
  "IsValid s = (s = StatusToDo \<or> s = StatusInProgress \<or> s = StatusDone)"

text \<open>\<open>internal/models/task.go\<close>: the row of table \<open>tasks\<close>.\<close>

record Task =
  ID :: uuid
  Title :: string
  Description :: "string option"
  Status :: TaskStatus
  UserID :: uuid
  CreatedAt :: time
  UpdatedAt :: time

section \<open>The task store\<close>

text \<open>
  The relational store behind \<open>gorm.DB\<close>: the rows of \<open>tasks\<close> in heap order, and
  whether the connection answers. A statement on a connection that does not answer
  returns a driver error, which the repository wraps. The table takes any status
  string here, so what is shown about stored statuses follows from the Go code alone.
\<close>

record database =
  tasks :: "Task list"
  healthy :: bool

datatype repo_error = ErrTaskNotFound | ErrFailed string

text \<open>
  \<open>taskRepository.Create\<close>: \<open>BeforeCreate\<close> assigns \<open>fresh\<close> (the value of
  \<open>uuid.New()\<close>) when the id is \<open>uuid.Nil\<close>; gorm fills zero timestamps with the
  current time; the insert fails on a primary key that is already there.
\<close>

definition BeforeCreate :: "uuid \<Rightarrow> Task \<Rightarrow> Task" where
  "BeforeCreate fresh t = (if ID t = 0 then t\<lparr>ID := fresh\<rparr> else t)"

definition stamp_create :: "time \<Rightarrow> Task \<Rightarrow> Task" where
  "stamp_create now t =
     t\<lparr>CreatedAt := (if CreatedAt t = 0 then now else CreatedAt t),
       UpdatedAt := (if UpdatedAt t = 0 then now else UpdatedAt t)\<rparr>"

definition repo_Create :: "database \<Rightarrow> time \<Rightarrow> uuid \<Rightarrow> Task \<Rightarrow> repo_error + (database \<times> Task)" where
  "repo_Create db now fresh task =
     (let t = stamp_create now (BeforeCreate fresh task) in
      if \<not> healthy db then Inl (ErrFailed ''failed to create task'')
      else if ID t \<in> set (map ID (tasks db)) then Inl (ErrFailed ''failed to create task'')
      else Inr (db\<lparr>tasks := tasks db @ [t]\<rparr>, t))"

text \<open>\<open>taskRepository.GetByID\<close>: \<open>Where("id = ? AND user_id = ?", id, userID).First\<close>.\<close>

definition repo_GetByID :: "database \<Rightarrow> uuid \<Rightarrow> uuid \<Rightarrow> repo_error + Task" where
  "repo_GetByID db tid userID =
     (if \<not> healthy db then Inl (ErrFailed ''failed to get task'')
      else case find (\<lambda>t. ID t = tid \<and> UserID t = userID) (tasks db) of
             None \<Rightarrow> Inl ErrTaskNotFound
           | Some t \<Rightarrow> Inr t)"

text \<open>
  Go's \<open>int\<close> is 64 bits wide and wraps around; \<open>wrap64\<close> is the value a result
  takes in that type.
\<close>

definition wrap64 :: "int \<Rightarrow> int" where
  "wrap64 x = (x + 2 ^ 63) mod 2 ^ 64 - 2 ^ 63"

text \<open>
  \<open>taskRepository.GetAll\<close>: the rows of the user, of the given status when one is
  given; \<open>Count\<close> under that filter; then \<open>Order("created_at DESC")\<close>, \<open>Offset\<close>,
  \<open>Limit\<close>. The query names no second sort key, and the database leaves the order
  of rows with equal \<open>created_at\<close> open: the model returns them in heap order (a
  stable sort). gorm writes \<open>OFFSET\<close> only for a positive offset and \<open>LIMIT\<close> only
  for a limit that is not negative.
\<close>

definition matching :: "uuid \<Rightarrow> string \<Rightarrow> Task list \<Rightarrow> Task list" where
  "matching userID status rows =
     filter (\<lambda>t. UserID t = userID \<and> (status = [] \<or> Status t = status)) rows"

definition order_created_desc :: "Task list \<Rightarrow> Task list" where
  "order_created_desc rows = sort_key (\<lambda>t. - CreatedAt t) rows"

definition offset_limit :: "int \<Rightarrow> int \<Rightarrow> 'a list \<Rightarrow> 'a list" where
  "offset_limit off lim rows =
     (let rest = (if 0 < off then drop (nat off) rows else rows)
      in if 0 \<le> lim then take (nat lim) rest else rest)"

definition repo_GetAll :: "database \<Rightarrow> uuid \<Rightarrow> string \<Rightarrow> int \<Rightarrow> int \<Rightarrow> repo_error + (Task list \<times> int)" where
  "repo_GetAll db userID status page limit =
     (let offset = wrap64 ((page - 1) * limit);
          query = matching userID status (tasks db);
          tot = int (length query)
      in if \<not> healthy db then Inl (ErrFailed ''failed to count tasks'')
         else Inr (offset_limit offset limit (order_created_desc query), tot))"

text \<open>
  \<open>taskRepository.Update\<close>: \<open>Model(task).Where("id = ? AND user_id = ?", task.ID,
  task.UserID).Updates(task)\<close>. \<open>Updates\<close> with a struct writes the fields that are
  not the zero value of their type and sets \<open>updated_at\<close> to the current time; the
  struct passed in gets the new \<open>UpdatedAt\<close> too. No row affected is "task not
  found".
\<close>

definition Updates :: "time \<Rightarrow> Task \<Rightarrow> Task \<Rightarrow> Task" where
  "Updates now task row =
     row\<lparr>Title := (if Title task = [] then Title row else Title task),
         Description := (case Description task of None \<Rightarrow> Description row | Some d \<Rightarrow> Some d),
         Status := (if Status task = [] then Status row else Status task),
         UserID := (if UserID task = 0 then UserID row else UserID task),
         CreatedAt := (if CreatedAt task = 0 then CreatedAt row else CreatedAt task),
         UpdatedAt := now\<rparr>"

definition repo_Update :: "database \<Rightarrow> time \<Rightarrow> Task \<Rightarrow> repo_error + (database \<times> Task)" where
  "repo_Update db now task =
     (let hit = (\<lambda>t. ID t = ID task \<and> UserID t = UserID task) in
      if \<not> healthy db then Inl (ErrFailed ''failed to update task'')
      else if filter hit (tasks db) = [] then Inl ErrTaskNotFound
      else Inr (db\<lparr>tasks := map (\<lambda>t. if hit t then Updates now task t else t) (tasks db)\<rparr>,
                task\<lparr>UpdatedAt := now\<rparr>))"

text \<open>\<open>taskRepository.Delete\<close>: \<open>Where("id = ? AND user_id = ?", id, userID).Delete\<close>.\<close>

definition repo_Delete :: "database \<Rightarrow> uuid \<Rightarrow> uuid \<Rightarrow> repo_error + database" where
  "repo_Delete db tid userID =
     (let hit = (\<lambda>t. ID t = tid \<and> UserID t = userID) in
      if \<not> healthy db then Inl (ErrFailed ''failed to delete task'')
      else if filter hit (tasks db) = [] then Inl ErrTaskNotFound
      else Inr (db\<lparr>tasks := filter (\<lambda>t. \<not> hit t) (tasks db)\<rparr>))"

text \<open>The rows of a table that belong to anyone but \<open>v\<close>, in heap order.\<close>

definition others :: "uuid \<Rightarrow> database \<Rightarrow> Task list" where
  "others v db = filter (\<lambda>t. UserID t \<noteq> v) (tasks db)"

section \<open>Requests and responses\<close>

text \<open>\<open>internal/params/task_request.go\<close>.\<close>

record CreateTaskRequest =
  ctr_Title :: string
  ctr_Description :: "string option"

record UpdateTaskRequest =
  utr_Title :: "string option"
  utr_Description :: "string option"
  utr_Status :: "TaskStatus option"

record TaskResponse =
  r_ID :: uuid
  r_Title :: string
  r_Description :: "string option"
  r_Status :: TaskStatus
  r_CreatedAt :: time
  r_UpdatedAt :: time

record TasksResponse =
  Tasks :: "TaskResponse list"
  Total :: int
  Page :: int
  Limit :: int
  TotalPages :: int

text \<open>
  Modelled from the spec: package \<open>internal/commons/response\<close> is not among the
  sources. A \<open>CustomError\<close> carries the HTTP status the handlers answer with; by the
  error taxonomy of the spec a \<open>repository\<close> error is 500, a bad request 400, an
  \<open>internal\<close> error 500, \<open>unauthorized\<close> 401, and a created resource is answered
  with 201.
\<close>

record CustomError =
  StatusCode :: int
  Message :: string

definition RepositoryError :: "string \<Rightarrow> CustomError" where
  "RepositoryError msg = \<lparr>StatusCode = 500, Message = msg\<rparr>"

definition BadRequestError :: "string \<Rightarrow> CustomError" where
  "BadRequestError msg = \<lparr>StatusCode = 400, Message = msg\<rparr>"

definition UnauthorizedErrorWithAdditionalInfo :: "string \<Rightarrow> CustomError" where
  "UnauthorizedErrorWithAdditionalInfo msg = \<lparr>StatusCode = 401, Message = msg\<rparr>"

definition StatusCreated :: int where
  "StatusCreated = 201"

section \<open>Decoding and validating a request body\<close>

text \<open>
  A body as \<open>encoding/json\<close> reads it: not a JSON object at all, or the members of
  the object in the order they are written. \<open>ShouldBindJSON\<close> decodes the members
  one after the other into the request struct: a key is matched to a field without
  regard to letter case, a key of no field is skipped, \<open>null\<close> sets a pointer
  field to \<open>nil\<close> and leaves a plain field as it is, and a value of another JSON
  type than the field's is an error.
\<close>

datatype json = JNull | JString string | JNumber int | JBool bool

datatype request_body = Malformed | JObject "(string \<times> json) list"

definition ascii_lower :: "char \<Rightarrow> char" where
  "ascii_lower c =
     (case map_of (zip ''ABCDEFGHIJKLMNOPQRSTUVWXYZ'' ''abcdefghijklmnopqrstuvwxyz'') c of
        None \<Rightarrow> c | Some d \<Rightarrow> d)"

definition EqualFold :: "string \<Rightarrow> string \<Rightarrow> bool" where
  "EqualFold a b = (map ascii_lower a = map ascii_lower b)"

fun into_string_ptr :: "json \<Rightarrow> string option option" where
  "into_string_ptr JNull = Some None"
| "into_string_ptr (JString s) = Some (Some s)"
| "into_string_ptr (JNumber n) = None"
| "into_string_ptr (JBool b) = None"

fun into_string :: "json \<Rightarrow> string \<Rightarrow> string option" where
  "into_string JNull cur = Some cur"
| "into_string (JString s) cur = Some s"
| "into_string (JNumber n) cur = None"
| "into_string (JBool b) cur = None"

fun decode_CreateTaskRequest :: "(string \<times> json) list \<Rightarrow> CreateTaskRequest \<Rightarrow> CreateTaskRequest option" where
  "decode_CreateTaskRequest [] req = Some req"
| "decode_CreateTaskRequest ((k, v) # ms) req =
     (if EqualFold k ''title'' then
        (case into_string v (ctr_Title req) of
           None \<Rightarrow> None
         | Some x \<Rightarrow> decode_CreateTaskRequest ms (req\<lparr>ctr_Title := x\<rparr>))
      else if EqualFold k ''description'' then
        (case into_string_ptr v of
           None \<Rightarrow> None
         | Some x \<Rightarrow> decode_CreateTaskRequest ms (req\<lparr>ctr_Description := x\<rparr>))
      else decode_CreateTaskRequest ms req)"

fun decode_UpdateTaskRequest :: "(string \<times> json) list \<Rightarrow> UpdateTaskRequest \<Rightarrow> UpdateTaskRequest option" where
  "decode_UpdateTaskRequest [] req = Some req"
| "decode_UpdateTaskRequest ((k, v) # ms) req =
     (if EqualFold k ''title'' then
        (case into_string_ptr v of
           None \<Rightarrow> None
         | Some x \<Rightarrow> decode_UpdateTaskRequest ms (req\<lparr>utr_Title := x\<rparr>))
      else if EqualFold k ''description'' then
        (case into_string_ptr v of
           None \<Rightarrow> None
         | Some x \<Rightarrow> decode_UpdateTaskRequest ms (req\<lparr>utr_Description := x\<rparr>))
      else if EqualFold k ''status'' then
        (case into_string_ptr v of
           None \<Rightarrow> None
         | Some x \<Rightarrow> decode_UpdateTaskRequest ms (req\<lparr>utr_Status := x\<rparr>))
      else decode_UpdateTaskRequest ms req)"

definition bind_CreateTaskRequest :: "request_body \<Rightarrow> CreateTaskRequest option" where
  "bind_CreateTaskRequest b =
     (case b of
        Malformed \<Rightarrow> None
      | JObject ms \<Rightarrow> decode_CreateTaskRequest ms \<lparr>ctr_Title = [], ctr_Description = None\<rparr>)"

definition bind_UpdateTaskRequest :: "request_body \<Rightarrow> UpdateTaskRequest option" where
  "bind_UpdateTaskRequest b =
     (case b of
        Malformed \<Rightarrow> None
      | JObject ms \<Rightarrow>
          decode_UpdateTaskRequest ms \<lparr>utr_Title = None, utr_Description = None, utr_Status = None\<rparr>)"

text \<open>The values a body gives for a field, in the order they are written.\<close>

definition member_values :: "string \<Rightarrow> (string \<times> json) list \<Rightarrow> json list" where
  "member_values field ms = map snd (filter (\<lambda>m. EqualFold (fst m) field) ms)"

text \<open>
  The \<open>validate\<close> tags of the two request structs: \<open>required,max=255\<close> on the
  title of a create request; \<open>omitempty,max=255\<close> and
  \<open>omitempty,oneof=TO_DO IN_PROGRESS DONE\<close> on the pointer fields of an update
  request, where \<open>omitempty\<close> passes a \<open>nil\<close> pointer and checks what any other
  pointer points to. A string is the list of its characters, so \<open>length\<close> is the
  count \<open>max\<close> compares.
\<close>

definition validate_CreateTaskRequest :: "CreateTaskRequest \<Rightarrow> bool" where
  "validate_CreateTaskRequest req = (ctr_Title req \<noteq> [] \<and> length (ctr_Title req) \<le> 255)"

definition validate_UpdateTaskRequest :: "UpdateTaskRequest \<Rightarrow> bool" where
  "validate_UpdateTaskRequest req =
     ((case utr_Title req of None \<Rightarrow> True | Some t \<Rightarrow> length t \<le> 255) \<and>
      (case utr_Status req of
         None \<Rightarrow> True
       | Some s \<Rightarrow> s = ''TO_DO'' \<or> s = ''IN_PROGRESS'' \<or> s = ''DONE''))"

section \<open>The task service (\<open>internal/services/task_service.go\<close>)\<close>

definition toResponse :: "Task \<Rightarrow> TaskResponse" where
  "toResponse t =
     \<lparr>r_ID = ID t, r_Title = Title t, r_Description = Description t, r_Status = Status t,
      r_CreatedAt = CreatedAt t, r_UpdatedAt = UpdatedAt t\<rparr>"

definition newTask :: "uuid \<Rightarrow> CreateTaskRequest \<Rightarrow> Task" where
  "newTask userID req =
     \<lparr>ID = 0, Title = ctr_Title req, Description = ctr_Description req, Status = StatusToDo,
      UserID = userID, CreatedAt = 0, UpdatedAt = 0\<rparr>"

definition taskService_CreateTask ::
  "database \<Rightarrow> time \<Rightarrow> uuid \<Rightarrow> uuid \<Rightarrow> CreateTaskRequest \<Rightarrow> (CustomError + TaskResponse) \<times> database" where
  "taskService_CreateTask db now fresh userID req =
     (case repo_Create db now fresh (newTask userID req) of
        Inl err \<Rightarrow> (Inl (RepositoryError ''failed to create task''), db)
      | Inr (db', task) \<Rightarrow> (Inr (toResponse task), db'))"

definition taskService_GetTask ::
  "database \<Rightarrow> uuid \<Rightarrow> uuid \<Rightarrow> (CustomError + TaskResponse) \<times> database" where
  "taskService_GetTask db taskID userID =
     (case repo_GetByID db taskID userID of
        Inl err \<Rightarrow> (Inl (RepositoryError ''failed to get task''), db)
      | Inr task \<Rightarrow> (Inr (toResponse task), db))"

text \<open>
  \<open>int(math.Ceil(float64(total) / float64(limit)))\<close>, as the integer it is for a
  count and a positive limit: the quotient rounded up.
\<close>

definition totalPages :: "int \<Rightarrow> int \<Rightarrow> int" where
  "totalPages tot limit = - ((- tot) div limit)"

definition listResponse :: "Task list \<Rightarrow> int \<Rightarrow> int \<Rightarrow> int \<Rightarrow> TasksResponse" where
  "listResponse rows tot page limit =
     \<lparr>Tasks = map toResponse rows, Total = tot, Page = page, Limit = limit,
      TotalPages = totalPages tot limit\<rparr>"

text \<open>
  \<open>if page < 1 { page = 1 }\<close> and \<open>if limit < 1 || limit > 100 { limit = 10 }\<close>,
  as \<open>taskService.GetTasks\<close> and \<open>TaskHandler.GetTasks\<close> both have them.
\<close>

definition at_least_page_1 :: "int \<Rightarrow> int" where
  "at_least_page_1 page = (if page < 1 then 1 else page)"

definition limit_or_10 :: "int \<Rightarrow> int" where
  "limit_or_10 limit = (if limit < 1 \<or> 100 < limit then 10 else limit)"

definition taskService_GetTasks ::
  "database \<Rightarrow> uuid \<Rightarrow> string \<Rightarrow> int \<Rightarrow> int \<Rightarrow> (CustomError + TasksResponse) \<times> database" where
  "taskService_GetTasks db userID status page0 limit0 =
     (let page = at_least_page_1 page0;
          limit = limit_or_10 limit0
      in if status \<noteq> [] \<and> \<not> IsValid status
         then (Inl (BadRequestError (''invalid status: '' @ status)), db)
         else case repo_GetAll db userID status page limit of
                Inl err \<Rightarrow> (Inl (RepositoryError ''failed to get tasks''), db)
              | Inr (rows, tot) \<Rightarrow> (Inr (listResponse rows tot page limit), db))"

text \<open>
  \<open>UpdateTask\<close>: the fields of the request that are not \<open>nil\<close> are written over
  the task that \<open>GetByID\<close> returned, the status only after \<open>IsValid\<close>, which
  ends the call with a bad request when it fails; then \<open>Update\<close>.
\<close>

definition applyTitle :: "UpdateTaskRequest \<Rightarrow> Task \<Rightarrow> Task" where
  "applyTitle req task = (case utr_Title req of None \<Rightarrow> task | Some t \<Rightarrow> task\<lparr>Title := t\<rparr>)"

definition applyDescription :: "UpdateTaskRequest \<Rightarrow> Task \<Rightarrow> Task" where
  "applyDescription req task =
     (case utr_Description req of None \<Rightarrow> task | Some d \<Rightarrow> task\<lparr>Description := Some d\<rparr>)"

definition applyStatus :: "UpdateTaskRequest \<Rightarrow> Task \<Rightarrow> Task" where
  "applyStatus req task = (case utr_Status req of None \<Rightarrow> task | Some s \<Rightarrow> task\<lparr>Status := s\<rparr>)"

definition refused_status :: "UpdateTaskRequest \<Rightarrow> TaskStatus option" where
  "refused_status req =
     (case utr_Status req of None \<Rightarrow> None | Some s \<Rightarrow> if IsValid s then None else Some s)"

definition taskService_UpdateTask ::
  "database \<Rightarrow> time \<Rightarrow> uuid \<Rightarrow> uuid \<Rightarrow> UpdateTaskRequest \<Rightarrow> (CustomError + TaskResponse) \<times> database" where
  "taskService_UpdateTask db now taskID userID req =
     (case repo_GetByID db taskID userID of
        Inl err \<Rightarrow> (Inl (RepositoryError ''failed to get task for update''), db)
      | Inr task0 \<Rightarrow>
          (case refused_status req of
             Some s \<Rightarrow> (Inl (BadRequestError (''invalid status: '' @ s)), db)
           | None \<Rightarrow>
               (case repo_Update db now (applyStatus req (applyDescription req (applyTitle req task0))) of
                  Inl err \<Rightarrow> (Inl (RepositoryError ''failed to update task''), db)
                | Inr (db', task) \<Rightarrow> (Inr (toResponse task), db'))))"

definition taskService_DeleteTask ::
  "database \<Rightarrow> uuid \<Rightarrow> uuid \<Rightarrow> CustomError option \<times> database" where
  "taskService_DeleteTask db taskID userID =
     (case repo_Delete db taskID userID of
        Inl err \<Rightarrow> (Some (RepositoryError ''failed to delete task''), db)
      | Inr db' \<Rightarrow> (None, db'))"

section \<open>The task handlers\<close>

text \<open>
  What a handler writes: the status code and the JSON it sends. A handler reads the
  \<open>user_id\<close> that \<open>AuthMiddleware\<close> left in the context (\<open>None\<close> when there is
  none) and, for the routes with \<open>:id\<close>, what \<open>uuid.Parse\<close> made of the path
  parameter (\<open>None\<close> when it returned an error). The service is the handler's
  \<open>taskService\<close> field, an interface value: the handlers take the method they call
  and the state it works on (the store, or the store and the cache).
\<close>

datatype payload =
    NoPayload
  | ErrorMessage string
  | ValidationFailed
  | Failure CustomError
  | TaskPayload TaskResponse
  | TasksPayload TasksResponse

record http_response =
  code :: int
  payload :: payload

definition AbortWithStatusJSON :: "CustomError \<Rightarrow> http_response" where
  "AbortWithStatusJSON custErr = \<lparr>code = StatusCode custErr, payload = Failure custErr\<rparr>"

definition no_user :: http_response where
  "no_user = \<lparr>code = 401, payload = ErrorMessage ''User ID not found in context''\<rparr>"

definition invalid_task_id :: http_response where
  "invalid_task_id = \<lparr>code = 400, payload = ErrorMessage ''Invalid task ID format''\<rparr>"

definition invalid_json :: http_response where
  "invalid_json = \<lparr>code = 400, payload = ErrorMessage ''Invalid JSON format''\<rparr>"

definition validation_failed :: http_response where
  "validation_failed = \<lparr>code = 400, payload = ValidationFailed\<rparr>"

definition TaskHandler_CreateTask ::
  "('st \<Rightarrow> time \<Rightarrow> uuid \<Rightarrow> uuid \<Rightarrow> CreateTaskRequest \<Rightarrow> (CustomError + TaskResponse) \<times> 'st) \<Rightarrow>
   'st \<Rightarrow> time \<Rightarrow> uuid \<Rightarrow> uuid option \<Rightarrow> request_body \<Rightarrow> http_response \<times> 'st" where
  "TaskHandler_CreateTask CreateTask st now fresh user body =
     (case user of
        None \<Rightarrow> (no_user, st)
      | Some userUUID \<Rightarrow>
          (case bind_CreateTaskRequest body of
             None \<Rightarrow> (invalid_json, st)
           | Some req \<Rightarrow>
               if \<not> validate_CreateTaskRequest req then (validation_failed, st)
               else (case CreateTask st now fresh userUUID req of
                       (Inl custErr, st') \<Rightarrow> (AbortWithStatusJSON custErr, st')
                     | (Inr task, st') \<Rightarrow>
                         (\<lparr>code = StatusCreated, payload = TaskPayload task\<rparr>, st'))))"

text \<open>
  \<open>strconv.Atoi\<close>: an optional sign and decimal digits. The second component tells
  whether the error is \<open>nil\<close>; with a syntax error the value is 0, out of the range
  of \<open>int\<close> it is the nearest bound.
\<close>

definition digit_value :: "char \<Rightarrow> int option" where
  "digit_value c = map_of (zip ''0123456789'' [0, 1, 2, 3, 4, 5, 6, 7, 8, 9]) c"

fun parse_digits :: "int \<Rightarrow> string \<Rightarrow> int option" where
  "parse_digits acc [] = Some acc"
| "parse_digits acc (c # cs) =
     (case digit_value c of None \<Rightarrow> None | Some d \<Rightarrow> parse_digits (acc * 10 + d) cs)"

definition MaxInt64 :: int where
  "MaxInt64 = 2 ^ 63 - 1"

definition MinInt64 :: int where
  "MinInt64 = - (2 ^ 63)"

definition in_range :: "int \<Rightarrow> int \<times> bool" where
  "in_range v =
     (if MaxInt64 < v then (MaxInt64, False)
      else if v < MinInt64 then (MinInt64, False)
      else (v, True))"

definition unsigned_part :: "string \<Rightarrow> int option" where
  "unsigned_part ds = (if ds = [] then None else parse_digits 0 ds)"

definition Atoi :: "string \<Rightarrow> int \<times> bool" where
  "Atoi s =
     (case s of
        [] \<Rightarrow> (0, False)
      | c # cs \<Rightarrow>
          if c = CHR ''-'' then
            (case unsigned_part cs of None \<Rightarrow> (0, False) | Some n \<Rightarrow> in_range (- n))
          else if c = CHR ''+'' then
            (case unsigned_part cs of None \<Rightarrow> (0, False) | Some n \<Rightarrow> in_range n)
          else
            (case unsigned_part s of None \<Rightarrow> (0, False) | Some n \<Rightarrow> in_range n))"

text \<open>
  \<open>c.DefaultQuery(key, def)\<close>: the value of the key in the query string, \<open>def\<close>
  when the key is not there.
\<close>

definition DefaultQuery :: "string option \<Rightarrow> string \<Rightarrow> string" where
  "DefaultQuery q def = (case q of None \<Rightarrow> def | Some v \<Rightarrow> v)"

text \<open>Lines 107 to 115 of \<open>TaskHandler.GetTasks\<close>: the page and the limit the service is called with.\<close>

definition query_page :: "string option \<Rightarrow> int" where
  "query_page q = at_least_page_1 (fst (Atoi (DefaultQuery q ''1'')))"

definition query_limit :: "string option \<Rightarrow> int" where
  "query_limit q = limit_or_10 (fst (Atoi (DefaultQuery q ''10'')))"

definition TaskHandler_GetTasks ::
  "('st \<Rightarrow> uuid \<Rightarrow> string \<Rightarrow> int \<Rightarrow> int \<Rightarrow> (CustomError + TasksResponse) \<times> 'st) \<Rightarrow>
   'st \<Rightarrow> uuid option \<Rightarrow> string \<Rightarrow> string option \<Rightarrow> string option \<Rightarrow> http_response \<times> 'st" where
  "TaskHandler_GetTasks GetTasks st user status pageQ limitQ =
     (case user of
        None \<Rightarrow> (no_user, st)
      | Some userUUID \<Rightarrow>
          (case GetTasks st userUUID status (query_page pageQ) (query_limit limitQ) of
             (Inl custErr, st') \<Rightarrow> (AbortWithStatusJSON custErr, st')
           | (Inr ts, st') \<Rightarrow> (\<lparr>code = 200, payload = TasksPayload ts\<rparr>, st')))"

definition TaskHandler_GetTask ::
  "('st \<Rightarrow> uuid \<Rightarrow> uuid \<Rightarrow> (CustomError + TaskResponse) \<times> 'st) \<Rightarrow>
   'st \<Rightarrow> uuid option \<Rightarrow> uuid option \<Rightarrow> http_response \<times> 'st" where
  "TaskHandler_GetTask GetTask st user idParam =
     (case user of
        None \<Rightarrow> (no_user, st)
      | Some userUUID \<Rightarrow>
          (case idParam of
             None \<Rightarrow> (invalid_task_id, st)
           | Some taskID \<Rightarrow>
               (case GetTask st taskID userUUID of
                  (Inl custErr, st') \<Rightarrow> (AbortWithStatusJSON custErr, st')
                | (Inr task, st') \<Rightarrow> (\<lparr>code = 200, payload = TaskPayload task\<rparr>, st'))))"

definition TaskHandler_UpdateTask ::
  "('st \<Rightarrow> time \<Rightarrow> uuid \<Rightarrow> uuid \<Rightarrow> UpdateTaskRequest \<Rightarrow> (CustomError + TaskResponse) \<times> 'st) \<Rightarrow>
   'st \<Rightarrow> time \<Rightarrow> uuid option \<Rightarrow> uuid option \<Rightarrow> request_body \<Rightarrow> http_response \<times> 'st" where
  "TaskHandler_UpdateTask UpdateTask st now user idParam body =
     (case user of
        None \<Rightarrow> (no_user, st)
      | Some userUUID \<Rightarrow>
          (case idParam of
             None \<Rightarrow> (invalid_task_id, st)
           | Some taskID \<Rightarrow>
               (case bind_UpdateTaskRequest body of
                  None \<Rightarrow> (invalid_json, st)
                | Some req \<Rightarrow>
                    if \<not> validate_UpdateTaskRequest req then (validation_failed, st)
                    else (case UpdateTask st now taskID userUUID req of
                            (Inl custErr, st') \<Rightarrow> (AbortWithStatusJSON custErr, st')
                          | (Inr task, st') \<Rightarrow>
                              (\<lparr>code = 200, payload = TaskPayload task\<rparr>, st')))))"

definition TaskHandler_DeleteTask ::
  "('st \<Rightarrow> uuid \<Rightarrow> uuid \<Rightarrow> CustomError option \<times> 'st) \<Rightarrow>
   'st \<Rightarrow> uuid option \<Rightarrow> uuid option \<Rightarrow> http_response \<times> 'st" where
  "TaskHandler_DeleteTask DeleteTask st user idParam =
     (case user of
        None \<Rightarrow> (no_user, st)
      | Some userUUID \<Rightarrow>
          (case idParam of
             None \<Rightarrow> (invalid_task_id, st)
           | Some taskID \<Rightarrow>
               (case DeleteTask st taskID userUUID of
                  (Some custErr, st') \<Rightarrow> (AbortWithStatusJSON custErr, st')
                | (None, st') \<Rightarrow> (\<lparr>code = 200, payload = NoPayload\<rparr>, st'))))"

section \<open>Formatting\<close>

text \<open>\<open>strconv.Itoa\<close> and the verb \<open>%d\<close>: the decimal digits, after a minus sign below zero.\<close>

definition digit_char :: "nat \<Rightarrow> char" where
  "digit_char d = ''0123456789'' ! (d mod 10)"

fun decimal :: "nat \<Rightarrow> string" where
  "decimal n = (if n < 10 then [digit_char n] else decimal (n div 10) @ [digit_char n])"

definition Itoa :: "int \<Rightarrow> string" where
  "Itoa i = (if i < 0 then CHR ''-'' # decimal (nat (- i)) else decimal (nat i))"

text \<open>
  \<open>uuid.UUID.String\<close>: the sixteen bytes, most significant first, in lower-case
  hexadecimal, in groups of 4, 2, 2, 2 and 6 bytes with a dash between the groups.
\<close>

definition hex_char :: "nat \<Rightarrow> char" where
  "hex_char d = ''0123456789abcdef'' ! (d mod 16)"

definition hex_byte :: "nat \<Rightarrow> string" where
  "hex_byte b = [hex_char (b div 16), hex_char b]"

definition uuid_byte :: "uuid \<Rightarrow> nat \<Rightarrow> nat" where
  "uuid_byte u i = (unat u div 256 ^ (15 - i)) mod 256"

definition hex_bytes :: "uuid \<Rightarrow> nat list \<Rightarrow> string" where
  "hex_bytes u js = concat (map (\<lambda>i. hex_byte (uuid_byte u i)) js)"

definition uuid_String :: "uuid \<Rightarrow> string" where
  "uuid_String u =
     hex_bytes u [0, 1, 2, 3] @ ''-'' @ hex_bytes u [4, 5] @ ''-'' @ hex_bytes u [6, 7] @ ''-'' @
     hex_bytes u [8, 9] @ ''-'' @ hex_bytes u [10, 11, 12, 13, 14, 15]"

section \<open>The list cache (the second \<open>taskService\<close>, with \<open>cache *redis.Client\<close>)\<close>

text \<open>
  The key/value store behind \<open>redis.Client\<close>: its entries, and whether it answers.
  A command sent while it does not answer returns an error and changes nothing. A
  stored value is the JSON of a \<open>TasksResponse\<close>, which \<open>json.Unmarshal\<close> reads
  back as that response, or other bytes, which it refuses. Entries expire after their
  time to live; expiry only ever removes an entry and is left out.
\<close>

datatype cache_value = Encoded TasksResponse | Undecodable string

record redis_cache =
  entries :: "(string \<times> cache_value) list"
  reachable :: bool

datatype redis_error = RedisNil | RedisDown

definition cache_Get :: "redis_cache \<Rightarrow> string \<Rightarrow> redis_error + cache_value" where
  "cache_Get c key =
     (if \<not> reachable c then Inl RedisDown
      else case map_of (entries c) key of None \<Rightarrow> Inl RedisNil | Some v \<Rightarrow> Inr v)"

definition cache_Set :: "redis_cache \<Rightarrow> string \<Rightarrow> cache_value \<Rightarrow> nat \<Rightarrow> redis_cache" where
  "cache_Set c key v ttl =
     (if \<not> reachable c then c
      else c\<lparr>entries := (key, v) # filter (\<lambda>e. fst e \<noteq> key) (entries c)\<rparr>)"

definition cache_Del :: "string \<Rightarrow> redis_cache \<Rightarrow> redis_cache" where
  "cache_Del key c =
     (if \<not> reachable c then c
      else c\<lparr>entries := filter (\<lambda>e. fst e \<noteq> key) (entries c)\<rparr>)"

text \<open>
  The glob patterns of \<open>SCAN ... MATCH\<close>, as far as the patterns built here use
  them: \<open>*\<close> stands for any run of characters, \<open>?\<close> for one, any other character
  for itself.
\<close>

fun glob :: "string \<Rightarrow> string \<Rightarrow> bool" where
  "glob [] [] = True"
| "glob [] (c # cs) = False"
| "glob (p # ps) [] = (p = CHR ''*'' \<and> glob ps [])"
| "glob (p # ps) (c # cs) =
     (if p = CHR ''*'' then glob ps (c # cs) \<or> glob (p # ps) cs
      else if p = CHR ''?'' then glob ps cs
      else p = c \<and> glob ps cs)"

text \<open>The keys the iterator of \<open>Scan(ctx, 0, pattern, 0)\<close> yields.\<close>

definition cache_Scan :: "redis_cache \<Rightarrow> string \<Rightarrow> string list" where
  "cache_Scan c pattern =
     (if \<not> reachable c then [] else filter (glob pattern) (map fst (entries c)))"

definition cacheTTL :: nat where
  "cacheTTL = 60"

definition cacheKeyTasks :: "uuid \<Rightarrow> string \<Rightarrow> int \<Rightarrow> int \<Rightarrow> string" where
  "cacheKeyTasks userID status page limit =
     ''tasks:'' @ uuid_String userID @ '':'' @ status @ '':'' @ Itoa page @ '':'' @ Itoa limit"

definition userPattern :: "uuid \<Rightarrow> string" where
  "userPattern userID = ''tasks:'' @ uuid_String userID @ '':*''"

definition invalidateUserTasksCache :: "redis_cache \<Rightarrow> uuid \<Rightarrow> redis_cache" where
  "invalidateUserTasksCache c userID = fold cache_Del (cache_Scan c (userPattern userID)) c"

text \<open>
  The methods of the service with the cache. Their state is the store and the cache.
\<close>

type_synonym backend = "database \<times> redis_cache"

definition cached_CreateTask ::
  "backend \<Rightarrow> time \<Rightarrow> uuid \<Rightarrow> uuid \<Rightarrow> CreateTaskRequest \<Rightarrow> (CustomError + TaskResponse) \<times> backend" where
  "cached_CreateTask st now fresh userID req =
     (case repo_Create (fst st) now fresh (newTask userID req) of
        Inl err \<Rightarrow> (Inl (RepositoryError ''failed to create task''), st)
      | Inr (db', task) \<Rightarrow>
          (Inr (toResponse task), (db', invalidateUserTasksCache (snd st) userID)))"

definition cached_GetTask ::
  "backend \<Rightarrow> uuid \<Rightarrow> uuid \<Rightarrow> (CustomError + TaskResponse) \<times> backend" where
  "cached_GetTask st taskID userID =
     (case repo_GetByID (fst st) taskID userID of
        Inl err \<Rightarrow> (Inl (RepositoryError ''failed to get task''), st)
      | Inr task \<Rightarrow> (Inr (toResponse task), st))"

definition from_store ::
  "backend \<Rightarrow> uuid \<Rightarrow> string \<Rightarrow> int \<Rightarrow> int \<Rightarrow> (CustomError + TasksResponse) \<times> backend" where
  "from_store st userID status page limit =
     (case repo_GetAll (fst st) userID status page limit of
        Inl err \<Rightarrow> (Inl (RepositoryError ''failed to get tasks''), st)
      | Inr (rows, tot) \<Rightarrow>
          (let response = listResponse rows tot page limit
           in (Inr response,
               (fst st,
                cache_Set (snd st) (cacheKeyTasks userID status page limit) (Encoded response)
                  cacheTTL))))"

definition cached_GetTasks ::
  "backend \<Rightarrow> uuid \<Rightarrow> string \<Rightarrow> int \<Rightarrow> int \<Rightarrow> (CustomError + TasksResponse) \<times> backend" where
  "cached_GetTasks st userID status page limit =
     (if status \<noteq> [] \<and> \<not> IsValid status
      then (Inl (BadRequestError (''invalid status: '' @ status)), st)
      else case cache_Get (snd st) (cacheKeyTasks userID status page limit) of
             Inr (Encoded cached) \<Rightarrow> (Inr cached, st)
           | Inr (Undecodable bytes) \<Rightarrow> from_store st userID status page limit
           | Inl err \<Rightarrow> from_store st userID status page limit)"

definition cached_UpdateTask ::
  "backend \<Rightarrow> time \<Rightarrow> uuid \<Rightarrow> uuid \<Rightarrow> UpdateTaskRequest \<Rightarrow> (CustomError + TaskResponse) \<times> backend" where
  "cached_UpdateTask st now taskID userID req =
     (case repo_GetByID (fst st) taskID userID of
        Inl err \<Rightarrow> (Inl (RepositoryError ''failed to get task for update''), st)
      | Inr task0 \<Rightarrow>
          (case refused_status req of
             Some s \<Rightarrow> (Inl (BadRequestError (''invalid status: '' @ s)), st)
           | None \<Rightarrow>
               (case repo_Update (fst st) now
                       (applyStatus req (applyDescription req (applyTitle req task0))) of
                  Inl err \<Rightarrow> (Inl (RepositoryError ''failed to update task''), st)
                | Inr (db', task) \<Rightarrow>
                    (Inr (toResponse task), (db', invalidateUserTasksCache (snd st) userID)))))"

definition cached_DeleteTask ::
  "backend \<Rightarrow> uuid \<Rightarrow> uuid \<Rightarrow> CustomError option \<times> backend" where
  "cached_DeleteTask st taskID userID =
     (case repo_Delete (fst st) taskID userID of
        Inl err \<Rightarrow> (Some (RepositoryError ''failed to delete task''), st)
      | Inr db' \<Rightarrow> (None, (db', invalidateUserTasksCache (snd st) userID)))"

section \<open>Configuration (\<open>config.Load\<close>)\<close>

record Config =
  AppEnv :: string
  AppPort :: string
  LogLevel :: string
  LogFormat :: string
  DBHost :: string
  DBPort :: string
  DBUser :: string
  DBPassword :: string
  DBName :: string
  DBSSLMode :: string
  RedisHost :: string
  RedisPort :: string
  RedisPassword :: string
  JWTSecret :: string
  BcryptCost :: int
  RateLimitRequests :: int
  RateLimitWindow :: int

text \<open>
  The environment of the process, after \<open>godotenv.Load\<close> has added the variables
  of the \<open>.env\<close> file. \<open>os.Getenv\<close> answers the empty string for a variable that
  is not set.
\<close>

type_synonym environ = "string \<Rightarrow> string option"

definition Getenv :: "environ \<Rightarrow> string \<Rightarrow> string" where
  "Getenv env key = (case env key of None \<Rightarrow> [] | Some v \<Rightarrow> v)"

definition getEnv :: "environ \<Rightarrow> string \<Rightarrow> string \<Rightarrow> string" where
  "getEnv env key defaultVal = (let v = Getenv env key in if v \<noteq> [] then v else defaultVal)"

definition getEnvAsInt :: "environ \<Rightarrow> string \<Rightarrow> int \<Rightarrow> int" where
  "getEnvAsInt env key defaultVal =
     (case Atoi (getEnv env key []) of (v, ok) \<Rightarrow> if ok then v else defaultVal)"

text \<open>
  \<open>Load\<close> fills the fields its struct literal names. \<open>JWTSecret\<close> and
  \<open>BcryptCost\<close> are not among them and keep the zero value of their type.
\<close>

definition Load :: "environ \<Rightarrow> Config" where
  "Load env =
     \<lparr>AppEnv = getEnv env ''APP_ENV'' ''development'',
      AppPort = getEnv env ''APP_PORT'' ''3000'',
      LogLevel = getEnv env ''LOG_LEVEL'' ''info'',
      LogFormat = getEnv env ''LOG_FORMAT'' ''text'',
      DBHost = getEnv env ''DB_HOST'' ''localhost'',
      DBPort = getEnv env ''DB_PORT'' ''5432'',
      DBUser = getEnv env ''DB_USER'' ''corenglish'',
      DBPassword = getEnv env ''DB_PASSWORD'' ''corenglish'',
      DBName = getEnv env ''DB_NAME'' ''corenglish'',
      DBSSLMode = getEnv env ''DB_SSL_MODE'' ''disable'',
      RedisHost = getEnv env ''REDIS_HOST'' ''localhost'',
      RedisPort = getEnv env ''REDIS_PORT'' ''6379'',
      RedisPassword = getEnv env ''REDIS_PASSWORD'' [],
      JWTSecret = [],
      BcryptCost = 0,
      RateLimitRequests = getEnvAsInt env ''RATE_LIMIT_REQUESTS'' 100,
      RateLimitWindow = getEnvAsInt env ''RATE_LIMIT_WINDOW'' 60\<rparr>"

section \<open>Rate limiting (\<open>RateLimitMiddleware\<close>)\<close>

text \<open>
  The counters the middleware keeps in the key/value store: a count and, once
  \<open>EXPIRE\<close> has been sent, the second at which the key runs out. A key that has
  run out is not there any more. \<open>INCR\<close> on a key that is not there sets it to 1;
  \<open>EXPIRE\<close> with a time that is not positive deletes the key.
\<close>

record counter =
  hits :: int
  expires_at :: "time option"

record redis_counters =
  counters :: "string \<Rightarrow> counter option"
  answers :: bool

definition live :: "redis_counters \<Rightarrow> time \<Rightarrow> string \<Rightarrow> counter option" where
  "live r now key =
     (case counters r key of
        None \<Rightarrow> None
      | Some c \<Rightarrow>
          (case expires_at c of
             None \<Rightarrow> Some c
           | Some e \<Rightarrow> if now < e then Some c else None))"

definition counter_Get :: "redis_counters \<Rightarrow> time \<Rightarrow> string \<Rightarrow> redis_error + int" where
  "counter_Get r now key =
     (if \<not> answers r then Inl RedisDown
      else case live r now key of None \<Rightarrow> Inl RedisNil | Some c \<Rightarrow> Inr (hits c))"

definition Incr :: "time \<Rightarrow> string \<Rightarrow> redis_counters \<Rightarrow> redis_counters" where
  "Incr now key r =
     r\<lparr>counters := (counters r)
        (key \<mapsto> (case live r now key of
                    None \<Rightarrow> \<lparr>hits = 1, expires_at = None\<rparr>
                  | Some c \<Rightarrow> c\<lparr>hits := hits c + 1\<rparr>))\<rparr>"

definition Expire :: "time \<Rightarrow> string \<Rightarrow> int \<Rightarrow> redis_counters \<Rightarrow> redis_counters" where
  "Expire now key seconds r =
     (case live r now key of
        None \<Rightarrow> r
      | Some c \<Rightarrow>
          if seconds \<le> 0 then r\<lparr>counters := (counters r)(key := None)\<rparr>
          else r\<lparr>counters := (counters r)(key \<mapsto> c\<lparr>expires_at := Some (now + seconds)\<rparr>)\<rparr>)"

text \<open>
  \<open>time.Duration(cfg.RateLimitWindow) * time.Second\<close> is a 64-bit count of
  nanoseconds. The client sends \<open>EXPIRE\<close> whole seconds: 1 for a positive duration
  below a second, the quotient (towards zero) otherwise.
\<close>

definition Second :: int where
  "Second = 1000000000"

definition window_duration :: "Config \<Rightarrow> int" where
  "window_duration cfg = wrap64 (RateLimitWindow cfg * Second)"

definition quot :: "int \<Rightarrow> int \<Rightarrow> int" where
  "quot a b = sgn a * sgn b * (\<bar>a\<bar> div \<bar>b\<bar>)"

definition formatSec :: "int \<Rightarrow> int" where
  "formatSec dur = (if 0 < dur \<and> dur < Second then 1 else quot dur Second)"

definition pipeline :: "redis_counters \<Rightarrow> Config \<Rightarrow> time \<Rightarrow> string \<Rightarrow> redis_counters option" where
  "pipeline r cfg now key =
     (if \<not> answers r then None
      else Some (Expire now key (formatSec (window_duration cfg)) (Incr now key r)))"

text \<open>
  What the middleware does with a request: it calls the next handler, having set
  the given headers, or it answers itself with a status, a message and the headers
  it has set.
\<close>

datatype rate_outcome =
    Next "(string \<times> string) list"
  | Abort int string "(string \<times> string) list"

definition exceeded_message :: "Config \<Rightarrow> string" where
  "exceeded_message cfg =
     ''Rate limit exceeded. Maximum '' @ Itoa (RateLimitRequests cfg) @ '' requests per '' @
     Itoa (RateLimitWindow cfg) @ '' seconds''"

definition rate_headers :: "Config \<Rightarrow> int \<Rightarrow> time \<Rightarrow> (string \<times> string) list" where
  "rate_headers cfg current now =
     (let remaining0 = wrap64 (RateLimitRequests cfg - wrap64 (current + 1));
          remaining = (if remaining0 < 0 then 0 else remaining0)
      in [(''X-RateLimit-Limit'', Itoa (RateLimitRequests cfg)),
          (''X-RateLimit-Remaining'', Itoa remaining),
          (''X-RateLimit-Reset'', Itoa (now + window_duration cfg div Second))])"

definition RateLimitMiddleware ::
  "redis_counters option \<Rightarrow> Config \<Rightarrow> string \<Rightarrow> time \<Rightarrow> rate_outcome \<times> redis_counters option" where
  "RateLimitMiddleware redisClient cfg clientIP now =
     (case redisClient of
        None \<Rightarrow> (Next [], None)
      | Some r \<Rightarrow>
          (let key = ''rate_limit:'' @ clientIP in
           case counter_Get r now key of
             Inl RedisDown \<Rightarrow> (Next [], Some r)
           | got \<Rightarrow>
               (let current = (case got of Inr n \<Rightarrow> n | Inl err \<Rightarrow> 0) in
                if RateLimitRequests cfg \<le> current
                then (Abort 429 (exceeded_message cfg) [], Some r)
                else case pipeline r cfg now key of
                       None \<Rightarrow> (Next [], Some r)
                     | Some r' \<Rightarrow> (Next (rate_headers cfg current now), Some r'))))"

text \<open>Requests of one client, one after the other, at the given times.\<close>

fun serve :: "redis_counters option \<Rightarrow> Config \<Rightarrow> string \<Rightarrow> time list \<Rightarrow> rate_outcome list" where
  "serve redisClient cfg clientIP [] = []"
| "serve redisClient cfg clientIP (now # later) =
     (case RateLimitMiddleware redisClient cfg clientIP now of
        (out, redisClient') \<Rightarrow> out # serve redisClient' cfg clientIP later)"

text \<open>Each request comes before the time to live set at the one before it has run out.\<close>

fun rapid :: "int \<Rightarrow> time list \<Rightarrow> bool" where
  "rapid w [] = True"
| "rapid w [a] = True"
| "rapid w (a # b # ts) = (b < a + w \<and> rapid w (b # ts))"

definition header :: "string \<Rightarrow> rate_outcome \<Rightarrow> string option" where
  "header name out = (case out of Next hs \<Rightarrow> map_of hs name | Abort c m hs \<Rightarrow> map_of hs name)"

section \<open>Authentication (\<open>AuthMiddleware\<close>)\<close>

text \<open>\<open>strings.Split\<close>: the pieces between the occurrences of the separator, found from the left.\<close>

function split_from :: "string \<Rightarrow> string \<Rightarrow> string \<Rightarrow> string list" where
  "split_from sep piece [] = [rev piece]"
| "split_from sep piece (c # cs) =
     (if sep \<noteq> [] \<and> take (length sep) (c # cs) = sep
      then rev piece # split_from sep [] (drop (length sep) (c # cs))
      else split_from sep (c # piece) cs)"
  by pat_completeness auto
termination
  by (relation "measure (\<lambda>(sep, piece, s). length s)") auto

definition strings_Split :: "string \<Rightarrow> string \<Rightarrow> string list" where
  "strings_Split s sep = (if sep = [] then map (\<lambda>c. [c]) s else split_from sep [] s)"

text \<open>
  Modelled from the spec: package \<open>pkg/token\<close> is not among the sources. The
  payload of a token is \<open>{auth_id, exp}\<close>; \<open>token.ValidateToken\<close> answers the
  payload or an error, and is a parameter of the model, as is \<open>uuid.Parse\<close>.
\<close>

record Payload =
  AuthId :: string
  Exp :: int

datatype auth_outcome = Proceed uuid | Refuse CustomError

definition AuthMiddleware ::
  "string \<Rightarrow> (string \<Rightarrow> string + Payload) \<Rightarrow> (string \<Rightarrow> uuid option) \<Rightarrow> string \<Rightarrow> auth_outcome" where
  "AuthMiddleware jwtSecret ValidateToken uuid_Parse authHeader =
     (if authHeader = [] then
        Refuse (UnauthorizedErrorWithAdditionalInfo ''Authorization header is required'')
      else
        (let bearerToken = strings_Split authHeader ''Bearer '' in
         if length bearerToken \<noteq> 2 then
           Refuse (UnauthorizedErrorWithAdditionalInfo ''len token must be 2'')
         else
           (case ValidateToken (bearerToken ! 1) of
              Inl err \<Rightarrow> Refuse (UnauthorizedErrorWithAdditionalInfo err)
            | Inr tok \<Rightarrow>
                (case uuid_Parse (AuthId tok) of
                   None \<Rightarrow> Refuse (UnauthorizedErrorWithAdditionalInfo ''Invalid user ID in token'')
                 | Some userID \<Rightarrow> Proceed userID))))"

section \<open>Orders of a list of tasks\<close>

text \<open>What the query asks for: no task comes before one that was created later.\<close>

definition created_desc :: "Task list \<Rightarrow> bool" where
  "created_desc rows = sorted_wrt (\<lambda>a b. CreatedAt b \<le> CreatedAt a) rows"

text \<open>
  The order in the words of the specification: \<open>created_at\<close> descending, and of
  two tasks created at the same time the one with the smaller id first; and the same
  with the larger id first.
\<close>

definition created_desc_then_id :: "Task list \<Rightarrow> bool" where
  "created_desc_then_id rows =
     sorted_wrt (\<lambda>a b. CreatedAt b < CreatedAt a \<or> (CreatedAt a = CreatedAt b \<and> ID a \<le> ID b)) rows"

definition created_desc_then_id_desc :: "Task list \<Rightarrow> bool" where
  "created_desc_then_id_desc rows =
     sorted_wrt (\<lambda>a b. CreatedAt b < CreatedAt a \<or> (CreatedAt a = CreatedAt b \<and> ID b \<le> ID a)) rows"

section \<open>Example data\<close>

definition alice :: uuid where
  "alice = 1"

definition bob :: uuid where
  "bob = 2"

definition task_a :: Task where
  "task_a = \<lparr>ID = 10, Title = ''A'', Description = Some ''d'', Status = ''TO_DO'',
             UserID = alice, CreatedAt = 100, UpdatedAt = 100\<rparr>"

definition task_b :: Task where
  "task_b = \<lparr>ID = 11, Title = ''B'', Description = None, Status = ''DONE'',
             UserID = bob, CreatedAt = 100, UpdatedAt = 100\<rparr>"

definition task_c :: Task where
  "task_c = \<lparr>ID = 12, Title = ''C'', Description = None, Status = ''TO_DO'',
             UserID = alice, CreatedAt = 100, UpdatedAt = 100\<rparr>"

definition store :: "Task list \<Rightarrow> database" where
  "store rows = \<lparr>tasks = rows, healthy = True\<rparr>"

section \<open>Evaluating the example data\<close>

lemma store_simps: "tasks (store rows) = rows" "healthy (store rows) = True"
  by (simp_all add: store_def)

lemmas example_defs = task_a_def task_b_def task_c_def alice_def bob_def

section \<open>Ownership at the store\<close>

lemma find_owner:
  "find (\<lambda>t. ID t = i \<and> UserID t = v) rows = Some t \<Longrightarrow> UserID t = v"
  by (induction rows) (auto split: if_splits)

lemma offset_limit_subset: "set (offset_limit off lim rows) \<subseteq> set rows"
  by (auto simp: offset_limit_def Let_def dest: in_set_takeD in_set_dropD)

lemma GetByID_owner: "repo_GetByID db i v = Inr t \<Longrightarrow> UserID t = v"
  by (auto simp: repo_GetByID_def split: if_splits option.splits dest: find_owner)

lemma GetAll_rows:
  "repo_GetAll db v st p l = Inr (rows, n) \<Longrightarrow>
   rows = offset_limit (wrap64 ((p - 1) * l)) l (order_created_desc (matching v st (tasks db)))"
  by (auto simp: repo_GetAll_def Let_def split: if_splits)

lemma GetAll_owner:
  assumes "repo_GetAll db v st p l = Inr (rows, n)" and "t \<in> set rows"
  shows "UserID t = v"
proof -
  from assms(2) have "t \<in> set (offset_limit (wrap64 ((p - 1) * l)) l
      (order_created_desc (matching v st (tasks db))))"
    using GetAll_rows [OF assms(1)] by simp
  then have "t \<in> set (order_created_desc (matching v st (tasks db)))"
    by (rule offset_limit_subset [THEN subsetD])
  then show ?thesis
    by (simp add: order_created_desc_def matching_def)
qed

lemma Update_tasks:
  "repo_Update db now task = Inr (db', task') \<Longrightarrow>
   tasks db' =
     map (\<lambda>t. if ID t = ID task \<and> UserID t = UserID task then Updates now task t else t) (tasks db)"
  by (auto simp: repo_Update_def Let_def split: if_splits)

lemma Update_others:
  assumes "repo_Update db now task = Inr (db', task')" and "UserID task = v"
  shows "others v db' = others v db"
proof -
  have "filter (\<lambda>t. UserID t \<noteq> UserID task)
      (map (\<lambda>t. if ID t = ID task \<and> UserID t = UserID task then Updates now task t else t) rows) =
      filter (\<lambda>t. UserID t \<noteq> UserID task) rows" for rows
    by (induction rows) (auto simp: Updates_def)
  with Update_tasks [OF assms(1)] show ?thesis
    using assms(2) by (simp add: others_def)
qed

lemma Delete_tasks:
  "repo_Delete db i v = Inr db' \<Longrightarrow>
   tasks db' = filter (\<lambda>t. \<not> (ID t = i \<and> UserID t = v)) (tasks db)"
  by (auto simp: repo_Delete_def Let_def split: if_splits)

lemma Delete_others:
  assumes "repo_Delete db i v = Inr db'"
  shows "others v db' = others v db"
proof -
  have "filter (\<lambda>t. UserID t \<noteq> v) (filter (\<lambda>t. \<not> (ID t = i \<and> UserID t = v)) rows) =
      filter (\<lambda>t. UserID t \<noteq> v) rows" for rows
    by (induction rows) auto
  with Delete_tasks [OF assms] show ?thesis
    by (simp add: others_def)
qed

lemma others_kept:
  assumes "others v db' = others v db" and "t \<in> set (tasks db)" and "UserID t \<noteq> v"
  shows "t \<in> set (tasks db')"
proof -
  from assms(2,3) have "t \<in> set (others v db)" by (simp add: others_def)
  with assms(1) have "t \<in> set (others v db')" by simp
  then show ?thesis unfolding others_def by simp
qed

text \<open>
  C1. Ownership isolation at the store. Let \<open>T\<close> be a row whose \<open>user_id\<close> is not
  \<open>V\<close>. Called with \<open>V\<close>'s user id, \<open>GetByID\<close> never returns \<open>T\<close>, \<open>GetAll\<close> never
  lists it, and \<open>Update\<close> and \<open>Delete\<close> leave it in the table, unchanged: the rows
  of every other user are the same list before and after.
\<close>

theorem C1_ownership_isolation:
  assumes "T \<in> set (tasks db)" and "UserID T \<noteq> V"
  shows "repo_GetByID db i V \<noteq> Inr T \<and>
         (\<forall>rows n. repo_GetAll db V st p l = Inr (rows, n) \<longrightarrow> T \<notin> set rows) \<and>
         (\<forall>db' task'. repo_Update db now task = Inr (db', task') \<longrightarrow> UserID task = V \<longrightarrow>
            others V db' = others V db \<and> T \<in> set (tasks db')) \<and>
         (\<forall>db'. repo_Delete db i V = Inr db' \<longrightarrow>
            others V db' = others V db \<and> T \<in> set (tasks db'))"
proof (intro conjI allI impI)
  show "repo_GetByID db i V \<noteq> Inr T"
    using assms(2) GetByID_owner by blast
next
  fix rows n assume "repo_GetAll db V st p l = Inr (rows, n)"
  then show "T \<notin> set rows"
    using assms(2) GetAll_owner by blast
next
  fix db' task' assume "repo_Update db now task = Inr (db', task')" and "UserID task = V"
  then show "others V db' = others V db" by (rule Update_others)
  then show "T \<in> set (tasks db')" using assms by (rule others_kept)
next
  fix db' assume "repo_Delete db i V = Inr db'"
  then show "others V db' = others V db" by (rule Delete_others)
  then show "T \<in> set (tasks db')" using assms by (rule others_kept)
qed

text \<open>
  Alice's task next to Bob's: Bob cannot read it by its id or list it, and his
  update and his delete of task 11 change his own row only.
\<close>

theorem C1_ownership_isolation_witness:
  "task_a \<in> set (tasks (store [task_a, task_b])) \<and> UserID task_a \<noteq> bob \<and>
   repo_GetByID (store [task_a, task_b]) 10 bob = Inl ErrTaskNotFound \<and>
   repo_GetByID (store [task_a, task_b]) 11 bob \<noteq> Inr task_a \<and>
   repo_GetAll (store [task_a, task_b]) bob [] 1 10 = Inr ([task_b], 1) \<and>
   task_a \<notin> set [task_b] \<and>
   repo_Update (store [task_a, task_b]) 200 (task_b\<lparr>Title := ''B2''\<rparr>) =
     Inr (store [task_a, task_b\<lparr>Title := ''B2'', UpdatedAt := 200\<rparr>],
          task_b\<lparr>Title := ''B2'', UpdatedAt := 200\<rparr>) \<and>
   task_a \<in> set (tasks (store [task_a, task_b\<lparr>Title := ''B2'', UpdatedAt := 200\<rparr>])) \<and>
   repo_Delete (store [task_a, task_b]) 11 bob = Inr (store [task_a]) \<and>
   task_a \<in> set (tasks (store [task_a]))"
proof -
  have mem: "task_a \<in> set (tasks (store [task_a, task_b]))"
    by (simp add: store_simps)
  have neq: "UserID task_a \<noteq> bob"
    by (simp add: example_defs)
  note isolated = C1_ownership_isolation [OF mem neq, of 11 "[]" 1 10 200 "task_b\<lparr>Title := ''B2''\<rparr>"]
  have get: "repo_GetByID (store [task_a, task_b]) 10 bob = Inl ErrTaskNotFound"
    by (simp add: repo_GetByID_def store_simps example_defs)
  have list: "repo_GetAll (store [task_a, task_b]) bob [] 1 10 = Inr ([task_b], 1)"
    by (simp add: repo_GetAll_def matching_def order_created_desc_def offset_limit_def
        wrap64_def store_simps example_defs)
  have upd: "repo_Update (store [task_a, task_b]) 200 (task_b\<lparr>Title := ''B2''\<rparr>) =
     Inr (store [task_a, task_b\<lparr>Title := ''B2'', UpdatedAt := 200\<rparr>],
          task_b\<lparr>Title := ''B2'', UpdatedAt := 200\<rparr>)"
    by (simp add: repo_Update_def Updates_def store_def example_defs)
  have del: "repo_Delete (store [task_a, task_b]) 11 bob = Inr (store [task_a])"
    by (simp add: repo_Delete_def store_def example_defs)
  have owner: "UserID (task_b\<lparr>Title := ''B2''\<rparr>) = bob"
    by (simp add: example_defs)
  from isolated list have "task_a \<notin> set [task_b]" by blast
  moreover from isolated upd owner
  have "task_a \<in> set (tasks (store [task_a, task_b\<lparr>Title := ''B2'', UpdatedAt := 200\<rparr>]))"
    by blast
  moreover from isolated del have "task_a \<in> set (tasks (store [task_a]))" by blast
  moreover from isolated have "repo_GetByID (store [task_a, task_b]) 11 bob \<noteq> Inr task_a"
    by blast
  ultimately show ?thesis
    using mem neq get list upd del by blast
qed

section \<open>The secret and the authentication middleware\<close>

text \<open>
  C10. The outcome of \<open>AuthMiddleware\<close> does not depend on its \<open>jwtSecret\<close>
  argument: for any two secrets and the same \<open>Authorization\<close> header (and the same
  \<open>token.ValidateToken\<close> and \<open>uuid.Parse\<close>) the results are equal. The closure
  never reads the parameter, and \<open>ValidateToken\<close> is called with the token alone.
\<close>

theorem C10_auth_ignores_secret:
  "AuthMiddleware secret1 ValidateToken uuid_Parse authHeader =
   AuthMiddleware secret2 ValidateToken uuid_Parse authHeader"
  by (simp add: AuthMiddleware_def)

lemma Split_bearer: "strings_Split ''Bearer t0'' ''Bearer '' = ['''', ''t0'']"
  by (simp add: strings_Split_def)

theorem C10_auth_ignores_secret_witness:
  "AuthMiddleware ''right-secret'' (\<lambda>t. Inr \<lparr>AuthId = t, Exp = 0\<rparr>) (\<lambda>s. Some alice) ''Bearer t0'' =
   AuthMiddleware ''wrong-secret'' (\<lambda>t. Inr \<lparr>AuthId = t, Exp = 0\<rparr>) (\<lambda>s. Some alice) ''Bearer t0'' \<and>
   AuthMiddleware ''wrong-secret'' (\<lambda>t. Inr \<lparr>AuthId = t, Exp = 0\<rparr>) (\<lambda>s. Some alice) ''Bearer t0'' =
   Proceed alice"
proof -
  have "AuthMiddleware ''wrong-secret'' (\<lambda>t. Inr \<lparr>AuthId = t, Exp = 0\<rparr>) (\<lambda>s. Some alice)
      ''Bearer t0'' = Proceed alice"
    by (simp add: AuthMiddleware_def Split_bearer)
  with C10_auth_ignores_secret [of "''right-secret''" _ _ "''Bearer t0''" "''wrong-secret''"]
  show ?thesis by blast
qed

section \<open>Loading the configuration\<close>

lemma Load_leaves_secret_and_cost: "JWTSecret (Load env) = [] \<and> BcryptCost (Load env) = 0"
  by (simp add: Load_def)

text \<open>
  C9. With \<open>JWT_SECRET=s3cret\<close> and \<open>BCRYPT_COST=12\<close> in the environment, the
  configuration \<open>Load\<close> returns has the empty JWT secret and bcrypt cost 0: the two
  variables are never read, while the rate limit next to them is.
\<close>

theorem C9_secret_and_cost_not_loaded:
  "Getenv [''JWT_SECRET'' \<mapsto> ''s3cret'', ''BCRYPT_COST'' \<mapsto> ''12'', ''RATE_LIMIT_REQUESTS'' \<mapsto> ''3'']
     ''JWT_SECRET'' = ''s3cret'' \<and>
   JWTSecret (Load [''JWT_SECRET'' \<mapsto> ''s3cret'', ''BCRYPT_COST'' \<mapsto> ''12'',
     ''RATE_LIMIT_REQUESTS'' \<mapsto> ''3'']) = [] \<and>
   BcryptCost (Load [''JWT_SECRET'' \<mapsto> ''s3cret'', ''BCRYPT_COST'' \<mapsto> ''12'',
     ''RATE_LIMIT_REQUESTS'' \<mapsto> ''3'']) = 0 \<and>
   RateLimitRequests (Load [''JWT_SECRET'' \<mapsto> ''s3cret'', ''BCRYPT_COST'' \<mapsto> ''12'',
     ''RATE_LIMIT_REQUESTS'' \<mapsto> ''3'']) = 3"
  by (simp add: Load_def Getenv_def getEnvAsInt_def getEnv_def Atoi_def unsigned_part_def
      digit_value_def in_range_def MaxInt64_def MinInt64_def)

section \<open>A request that matches no row\<close>

text \<open>
  C2. Bob reads, updates and deletes Alice's task 10, and Alice reads task 99, which
  nobody has: each time the handler answers 500 with the repository error of the
  service, the same answer a store that does not respond gets. The "task not found"
  of the repository is not told apart from its other errors.
\<close>

theorem C2_miss_answers_500:
  "TaskHandler_GetTask taskService_GetTask (store [task_a]) (Some bob) (Some 10) =
     (\<lparr>code = 500, payload = Failure (RepositoryError ''failed to get task'')\<rparr>, store [task_a]) \<and>
   TaskHandler_GetTask taskService_GetTask (store [task_a]) (Some alice) (Some 99) =
     (\<lparr>code = 500, payload = Failure (RepositoryError ''failed to get task'')\<rparr>, store [task_a]) \<and>
   TaskHandler_GetTask taskService_GetTask ((store [task_a])\<lparr>healthy := False\<rparr>) (Some alice) (Some 10) =
     (\<lparr>code = 500, payload = Failure (RepositoryError ''failed to get task'')\<rparr>,
      (store [task_a])\<lparr>healthy := False\<rparr>) \<and>
   TaskHandler_UpdateTask taskService_UpdateTask (store [task_a]) 200 (Some bob) (Some 10)
       (JObject [(''title'', JString ''mine'')]) =
     (\<lparr>code = 500, payload = Failure (RepositoryError ''failed to get task for update'')\<rparr>,
      store [task_a]) \<and>
   TaskHandler_DeleteTask taskService_DeleteTask (store [task_a]) (Some bob) (Some 10) =
     (\<lparr>code = 500, payload = Failure (RepositoryError ''failed to delete task'')\<rparr>, store [task_a])"
  by (simp add: TaskHandler_GetTask_def TaskHandler_UpdateTask_def TaskHandler_DeleteTask_def
      taskService_GetTask_def taskService_UpdateTask_def taskService_DeleteTask_def
      repo_GetByID_def repo_Delete_def AbortWithStatusJSON_def RepositoryError_def
      bind_UpdateTaskRequest_def validate_UpdateTaskRequest_def EqualFold_def ascii_lower_def
      store_def example_defs)

section \<open>The order of a list\<close>

lemma created_desc_sorted: "created_desc rows = sorted (map (\<lambda>t. - CreatedAt t) rows)"
  by (simp add: created_desc_def sorted_map)

lemma created_desc_order: "created_desc (order_created_desc rows)"
  by (simp add: created_desc_sorted order_created_desc_def)

lemma created_desc_offset_limit: "created_desc rows \<Longrightarrow> created_desc (offset_limit off lim rows)"
  by (simp add: created_desc_def offset_limit_def Let_def sorted_wrt_take sorted_wrt_drop)

lemma GetAll_created_desc: "repo_GetAll db u st p l = Inr (rows, n) \<Longrightarrow> created_desc rows"
  by (drule GetAll_rows) (simp add: created_desc_offset_limit created_desc_order)

text \<open>The page and the limit \<open>taskService.GetTasks\<close> queries the store with.\<close>

lemma GetTasks_rows:
  assumes "taskService_GetTasks db u st p l = (Inr resp, db')"
  shows "\<exists>rows n. repo_GetAll db u st (at_least_page_1 p) (limit_or_10 l) =
           Inr (rows, n) \<and>
         resp = listResponse rows n (at_least_page_1 p) (limit_or_10 l) \<and>
         db' = db"
proof (cases "repo_GetAll db u st (at_least_page_1 p) (limit_or_10 l)")
  case (Inl e)
  with assms show ?thesis
    by (simp add: taskService_GetTasks_def Let_def split: if_splits)
next
  case (Inr found)
  with assms show ?thesis
    by (cases found) (auto simp: taskService_GetTasks_def Let_def split: if_splits)
qed

text \<open>
  C8, as the code has it. The rows \<open>GetAll\<close> returns are in descending order of
  \<open>created_at\<close>, and so are the tasks of the list response; the query has no
  second sort key, so nothing is said about tasks created at the same time.
\<close>

theorem C8_list_created_desc:
  "(\<forall>rows n. repo_GetAll db u st p l = Inr (rows, n) \<longrightarrow> created_desc rows) \<and>
   (\<forall>resp db'. taskService_GetTasks db u st p l = (Inr resp, db') \<longrightarrow>
      sorted_wrt (\<lambda>a b. r_CreatedAt b \<le> r_CreatedAt a) (Tasks resp))"
proof (intro conjI allI impI)
  fix rows n assume "repo_GetAll db u st p l = Inr (rows, n)"
  then show "created_desc rows" by (rule GetAll_created_desc)
next
  fix resp db' assume "taskService_GetTasks db u st p l = (Inr resp, db')"
  then obtain rows n where
    rows: "repo_GetAll db u st (at_least_page_1 p) (limit_or_10 l) =
      Inr (rows, n)" and
    resp: "resp = listResponse rows n (at_least_page_1 p) (limit_or_10 l)"
    using GetTasks_rows by blast
  from rows have "created_desc rows" by (rule GetAll_created_desc)
  then show "sorted_wrt (\<lambda>a b. r_CreatedAt b \<le> r_CreatedAt a) (Tasks resp)"
    by (simp add: resp listResponse_def created_desc_def sorted_wrt_map toResponse_def)
qed

theorem C8_list_created_desc_witness:
  "repo_GetAll (store [task_a, task_c\<lparr>CreatedAt := 300\<rparr>]) alice [] 1 10 =
     Inr ([task_c\<lparr>CreatedAt := 300\<rparr>, task_a], 2) \<and>
   created_desc [task_c\<lparr>CreatedAt := 300\<rparr>, task_a]"
proof -
  have "repo_GetAll (store [task_a, task_c\<lparr>CreatedAt := 300\<rparr>]) alice [] 1 10 =
     Inr ([task_c\<lparr>CreatedAt := 300\<rparr>, task_a], 2)"
    by (simp add: repo_GetAll_def matching_def order_created_desc_def offset_limit_def
        wrap64_def store_simps example_defs)
  with C8_list_created_desc [of "store [task_a, task_c\<lparr>CreatedAt := 300\<rparr>]" alice "[]" 1 10]
  show ?thesis by blast
qed

text \<open>
  Two tasks of Alice created at the same time come back in the order the table
  holds them: with task 12 stored first the list is 12, 10, and with task 10 stored
  first it is 10, 12. Neither reading of "ties broken by id" holds of both.
\<close>

theorem C8_ties_not_by_id:
  "repo_GetAll (store [task_c, task_a]) alice [] 1 10 = Inr ([task_c, task_a], 2) \<and>
   \<not> created_desc_then_id [task_c, task_a] \<and>
   repo_GetAll (store [task_a, task_c]) alice [] 1 10 = Inr ([task_a, task_c], 2) \<and>
   \<not> created_desc_then_id_desc [task_a, task_c]"
  by (simp add: repo_GetAll_def matching_def order_created_desc_def offset_limit_def
      wrap64_def store_simps example_defs created_desc_then_id_def created_desc_then_id_desc_def)

section \<open>Page and limit of a list request\<close>

lemma at_least_page_1_bounds: "1 \<le> at_least_page_1 p"
  by (simp add: at_least_page_1_def)

lemma limit_or_10_bounds: "1 \<le> limit_or_10 l \<and> limit_or_10 l \<le> 100"
  by (simp add: limit_or_10_def)

lemma at_least_page_1_again: "at_least_page_1 (at_least_page_1 p) = at_least_page_1 p"
  by (simp add: at_least_page_1_def)

lemma limit_or_10_again: "limit_or_10 (limit_or_10 l) = limit_or_10 l"
  by (simp add: limit_or_10_def)

lemma query_defaults: "query_page None = 1 \<and> query_limit None = 10"
  by (simp add: query_page_def query_limit_def DefaultQuery_def Atoi_def unsigned_part_def
      digit_value_def in_range_def MaxInt64_def MinInt64_def at_least_page_1_def limit_or_10_def)

lemma handler_list_ok:
  assumes "TaskHandler_GetTasks GetTasks st (Some u) status pq lq =
    (\<lparr>code = 200, payload = TasksPayload resp\<rparr>, st')"
  shows "GetTasks st u status (query_page pq) (query_limit lq) = (Inr resp, st')"
proof (cases "GetTasks st u status (query_page pq) (query_limit lq)")
  case (Pair res st'')
  with assms show ?thesis
    by (cases res) (simp_all add: TaskHandler_GetTasks_def AbortWithStatusJSON_def)
qed

lemma from_store_rows:
  assumes "from_store st u status p l = (Inr resp, st')"
  shows "\<exists>rows n. repo_GetAll (fst st) u status p l = Inr (rows, n) \<and> resp = listResponse rows n p l"
proof (cases "repo_GetAll (fst st) u status p l")
  case (Inl e)
  with assms show ?thesis by (simp add: from_store_def)
next
  case (Inr found)
  with assms show ?thesis by (cases found) (auto simp: from_store_def Let_def)
qed

lemma cached_GetTasks_miss:
  assumes "\<forall>r. cache_Get (snd st) (cacheKeyTasks u status p l) \<noteq> Inr (Encoded r)"
    and "cached_GetTasks st u status p l = (Inr resp, st')"
  shows "from_store st u status p l = (Inr resp, st')"
proof (cases "cache_Get (snd st) (cacheKeyTasks u status p l)")
  case (Inl e)
  with assms(2) show ?thesis by (simp add: cached_GetTasks_def split: if_splits)
next
  case (Inr v)
  with assms show ?thesis by (cases v) (simp_all add: cached_GetTasks_def split: if_splits)
qed

text \<open>
  C7. List input normalization. Without \<open>page\<close> and \<open>limit\<close> in the query the
  handler uses page 1 and limit 10. Whatever the two parameters hold, the page it
  uses is at least 1 and the limit between 1 and 100: a page below 1 becomes 1 and a
  limit outside 1..100 becomes 10, values in range are kept. A list response of
  either service that was read from the store was read with exactly that page and
  limit, and reports them in its \<open>page\<close> and \<open>limit\<close> fields.
\<close>

theorem C7_list_input_normalization:
  "query_page None = 1 \<and> query_limit None = 10 \<and>
   1 \<le> query_page pq \<and> 1 \<le> query_limit lq \<and> query_limit lq \<le> 100 \<and>
   query_page (Some s) = max 1 (fst (Atoi s)) \<and>
   query_limit (Some s) = (if 1 \<le> fst (Atoi s) \<and> fst (Atoi s) \<le> 100 then fst (Atoi s) else 10) \<and>
   (\<forall>resp db'.
      TaskHandler_GetTasks taskService_GetTasks db (Some u) status pq lq =
        (\<lparr>code = 200, payload = TasksPayload resp\<rparr>, db') \<longrightarrow>
      Page resp = query_page pq \<and> Limit resp = query_limit lq \<and>
      (\<exists>rows n. repo_GetAll db u status (query_page pq) (query_limit lq) = Inr (rows, n) \<and>
         Tasks resp = map toResponse rows \<and> Total resp = n)) \<and>
   (\<forall>resp st'.
      (\<forall>r. cache_Get c (cacheKeyTasks u status (query_page pq) (query_limit lq)) \<noteq> Inr (Encoded r)) \<longrightarrow>
      TaskHandler_GetTasks cached_GetTasks (db, c) (Some u) status pq lq =
        (\<lparr>code = 200, payload = TasksPayload resp\<rparr>, st') \<longrightarrow>
      Page resp = query_page pq \<and> Limit resp = query_limit lq \<and>
      (\<exists>rows n. repo_GetAll db u status (query_page pq) (query_limit lq) = Inr (rows, n) \<and>
         Tasks resp = map toResponse rows \<and> Total resp = n))"
proof (intro conjI allI impI)
  show "query_page None = 1" "query_limit None = 10"
    using query_defaults by simp_all
  show "1 \<le> query_page pq"
    by (simp add: query_page_def at_least_page_1_bounds)
  show "1 \<le> query_limit lq" "query_limit lq \<le> 100"
    using limit_or_10_bounds by (simp_all add: query_limit_def)
  show "query_page (Some s) = max 1 (fst (Atoi s))"
    by (simp add: query_page_def DefaultQuery_def at_least_page_1_def)
  show "query_limit (Some s) =
      (if 1 \<le> fst (Atoi s) \<and> fst (Atoi s) \<le> 100 then fst (Atoi s) else 10)"
    by (auto simp: query_limit_def DefaultQuery_def limit_or_10_def)
next
  fix resp db'
  assume "TaskHandler_GetTasks taskService_GetTasks db (Some u) status pq lq =
    (\<lparr>code = 200, payload = TasksPayload resp\<rparr>, db')"
  then have "taskService_GetTasks db u status (query_page pq) (query_limit lq) = (Inr resp, db')"
    by (rule handler_list_ok)
  then obtain rows n where
    "repo_GetAll db u status (at_least_page_1 (query_page pq)) (limit_or_10 (query_limit lq)) =
       Inr (rows, n)"
    "resp = listResponse rows n (at_least_page_1 (query_page pq)) (limit_or_10 (query_limit lq))"
    using GetTasks_rows by blast
  then have rows: "repo_GetAll db u status (query_page pq) (query_limit lq) = Inr (rows, n)"
    and resp: "resp = listResponse rows n (query_page pq) (query_limit lq)"
    by (simp_all add: query_page_def query_limit_def at_least_page_1_again limit_or_10_again)
  show "Page resp = query_page pq" "Limit resp = query_limit lq"
    by (simp_all add: resp listResponse_def)
  show "\<exists>rows n. repo_GetAll db u status (query_page pq) (query_limit lq) = Inr (rows, n) \<and>
      Tasks resp = map toResponse rows \<and> Total resp = n"
    using rows by (simp add: resp listResponse_def)
next
  fix resp st'
  assume miss: "\<forall>r. cache_Get c (cacheKeyTasks u status (query_page pq) (query_limit lq)) \<noteq>
      Inr (Encoded r)"
  assume "TaskHandler_GetTasks cached_GetTasks (db, c) (Some u) status pq lq =
      (\<lparr>code = 200, payload = TasksPayload resp\<rparr>, st')"
  then have "cached_GetTasks (db, c) u status (query_page pq) (query_limit lq) = (Inr resp, st')"
    by (rule handler_list_ok)
  with miss have "from_store (db, c) u status (query_page pq) (query_limit lq) = (Inr resp, st')"
    using cached_GetTasks_miss [of "(db, c)"] by simp
  then have "\<exists>rows n. repo_GetAll (fst (db, c)) u status (query_page pq) (query_limit lq) =
      Inr (rows, n) \<and> resp = listResponse rows n (query_page pq) (query_limit lq)"
    by (rule from_store_rows)
  then obtain rows n where
    rows: "repo_GetAll db u status (query_page pq) (query_limit lq) = Inr (rows, n)"
    and resp: "resp = listResponse rows n (query_page pq) (query_limit lq)"
    by auto
  show "Page resp = query_page pq" "Limit resp = query_limit lq"
    by (simp_all add: resp listResponse_def)
  show "\<exists>rows n. repo_GetAll db u status (query_page pq) (query_limit lq) = Inr (rows, n) \<and>
      Tasks resp = map toResponse rows \<and> Total resp = n"
    using rows by (simp add: resp listResponse_def)
qed

text \<open>
  \<open>GET /tasks?page=0&limit=500\<close> by Alice: the store is read with page 1 and limit
  10, and the response says so.
\<close>

lemma Atoi_examples: "Atoi ''0'' = (0, True)" "Atoi ''500'' = (500, True)"
  by (simp_all add: Atoi_def unsigned_part_def digit_value_def in_range_def MaxInt64_def
      MinInt64_def)

theorem C7_list_input_normalization_witness:
  "TaskHandler_GetTasks taskService_GetTasks (store [task_a]) (Some alice) [] (Some ''0'') (Some ''500'') =
     (\<lparr>code = 200, payload = TasksPayload (listResponse [task_a] 1 1 10)\<rparr>, store [task_a]) \<and>
   query_page (Some ''0'') = 1 \<and> query_limit (Some ''500'') = 10 \<and>
   Page (listResponse [task_a] 1 1 10) = query_page (Some ''0'') \<and>
   Limit (listResponse [task_a] 1 1 10) = query_limit (Some ''500'')"
proof -
  have page: "query_page (Some ''0'') = 1" and limit: "query_limit (Some ''500'') = 10"
    by (simp_all add: query_page_def query_limit_def DefaultQuery_def Atoi_examples
        at_least_page_1_def limit_or_10_def)
  have list: "repo_GetAll (store [task_a]) alice [] 1 10 = Inr ([task_a], 1)"
    by (simp add: repo_GetAll_def matching_def order_created_desc_def offset_limit_def
        wrap64_def store_simps example_defs)
  have run: "TaskHandler_GetTasks taskService_GetTasks (store [task_a]) (Some alice) []
      (Some ''0'') (Some ''500'') =
     (\<lparr>code = 200, payload = TasksPayload (listResponse [task_a] 1 1 10)\<rparr>, store [task_a])"
    by (simp add: TaskHandler_GetTasks_def taskService_GetTasks_def page limit list
        at_least_page_1_def limit_or_10_def)
  from C7_list_input_normalization [of "Some ''0''" "Some ''500''" _ "store [task_a]" alice "[]"]
    run page limit
  show ?thesis by metis
qed

end
